theory Spec2Isabelle
  imports Complex_Main "HOL-Library.Word" "HOL-Library.Signed_Division"
begin

section \<open>Conventions\<close>

text \<open>
  The development embeds the decision logic of \<^verbatim>\<open>src/lpmd_util.c\<close> and
  \<^verbatim>\<open>src/wlt_proxy/spike_mgmt.c\<close>.

  \<^item> A C \<^verbatim>\<open>int\<close> is modelled by \<^typ>\<open>int\<close>. Signed overflow is undefined in C, so
    the model describes the executions in which no signed operation leaves the range
    of its type.
  \<^item> C division on signed operands truncates towards zero: it is \<open>sdiv\<close>. Where the
    source can divide by zero the model returns an error value.
  \<^item> \<^verbatim>\<open>unsigned long\<close> and \<^verbatim>\<open>unsigned long long\<close> are 64-bit words (the daemon
    is built for x86-64 Linux); their arithmetic wraps.
  \<^item> A \<^verbatim>\<open>float\<close> is an IEEE single-precision number, modelled by the rational it
    denotes. Every conversion to \<^verbatim>\<open>float\<close> and every float operation rounds its exact
    result to 24 significant bits, to nearest and to even on a tie (\<open>fl32\<close>), as the
    SSE instructions of x86-64 do. The exponent range is not modelled: the floats of
    \<^verbatim>\<open>spike_mgmt.c\<close> are quotients and products of a few \<^verbatim>\<open>int\<close> and \<^verbatim>\<open>long\<close> values
    and stay far from overflow and from the subnormal numbers. A division by a zero
    float gives an infinity or a NaN, which \<open>fval\<close> represents.
  \<^item> Globals and function-local statics become fields of a state record that every
    function takes and returns. What a function reads from its environment (the clock,
    \<^verbatim>\<open>extern\<close> variables, functions defined outside these two files) is an explicit
    argument.
\<close>

text \<open>Conversion of a wider integer to \<^verbatim>\<open>int\<close> (two's complement, 32 bits).\<close>

definition to_int32 :: "int \<Rightarrow> int" where
  "to_int32 x = sint (word_of_int x :: 32 word)"

text \<open>Conversion of a float to \<^verbatim>\<open>int\<close>: the fractional part is discarded.\<close>

definition c_trunc :: "rat \<Rightarrow> int" where
  "c_trunc q = (if 0 \<le> q then \<lfloor>q\<rfloor> else \<lceil>q\<rceil>)"

subsection \<open>Single-precision arithmetic\<close>

text \<open>The number of binary digits of a positive integer.\<close>

function bit_length :: "int \<Rightarrow> int" where
  "bit_length n = (if n \<le> 0 then 0 else 1 + bit_length (n div 2))"
  by pat_completeness auto
termination
  by (relation "measure nat") auto

definition pow2 :: "int \<Rightarrow> rat" where
  "pow2 e = (if 0 \<le> e then 2 ^ nat e else 1 / 2 ^ nat (- e))"

text \<open>The integer nearest to \<open>y\<close>, the even one of the two when \<open>y\<close> lies half way.\<close>

definition round_even :: "rat \<Rightarrow> int" where
  "round_even y =
     (let f = \<lfloor>y\<rfloor>; d = y - of_int f
      in if d < 1 / 2 then f
         else if 1 / 2 < d then f + 1
         else if even f then f else f + 1)"

text \<open>The exponent \<open>e\<close> of a non-zero \<open>x\<close>: \<open>2 ^ e \<le> \<bar>x\<bar> < 2 ^ (e + 1)\<close>.\<close>

definition float_exponent :: "rat \<Rightarrow> int" where
  "float_exponent x =
     (let (p, q) = quotient_of \<bar>x\<bar>;
          d = bit_length p - bit_length q
      in if pow2 d \<le> \<bar>x\<bar> then d else d - 1)"

text \<open>Rounding to single precision: the nearest multiple of \<open>2 ^ (e - 23)\<close>.\<close>

definition fl32 :: "rat \<Rightarrow> rat" where
  "fl32 x =
     (if x = 0 then 0
      else let u = pow2 (float_exponent x - 23)
           in of_int (round_even (x / u)) * u)"

text \<open>The conversion \<^verbatim>\<open>(float) n\<close> of an \<^verbatim>\<open>int\<close> or a \<^verbatim>\<open>long\<close>.\<close>

definition int_to_float :: "int \<Rightarrow> rat" where
  "int_to_float n = fl32 (of_int n)"

text \<open>
  The result of a float division, whose divisor can be zero: the zero floats that occur
  here are positive zeros.
\<close>

datatype fval = Finite rat | PosInf | NegInf | NaN

definition float_div :: "rat \<Rightarrow> rat \<Rightarrow> fval" where
  "float_div a b =
     (if b = 0 then (if 0 < a then PosInf else if a < 0 then NegInf else NaN)
      else Finite (fl32 (a / b)))"

text \<open>The comparisons \<^verbatim>\<open>x > 1.0\<close> and \<^verbatim>\<open>x < 1.0\<close>, and \<^verbatim>\<open>x\<close> used as a condition.\<close>

fun float_gt1 :: "fval \<Rightarrow> bool" where
  "float_gt1 (Finite r) = (1 < r)"
| "float_gt1 PosInf = True"
| "float_gt1 NegInf = False"
| "float_gt1 NaN = False"

fun float_lt1 :: "fval \<Rightarrow> bool" where
  "float_lt1 (Finite r) = (r < 1)"
| "float_lt1 PosInf = False"
| "float_lt1 NegInf = True"
| "float_lt1 NaN = False"

fun float_nonzero :: "fval \<Rightarrow> bool" where
  "float_nonzero (Finite r) = (r \<noteq> 0)"
| "float_nonzero PosInf = True"
| "float_nonzero NegInf = True"
| "float_nonzero NaN = True"

text \<open>
  \<^verbatim>\<open>(int)(a / x)\<close> for a float \<open>a\<close> and an \<open>x\<close> that is greater than 1: a finite
  quotient is rounded and truncated, and a quotient by infinity is 0.
\<close>

fun quotient_to_int :: "rat \<Rightarrow> fval \<Rightarrow> int" where
  "quotient_to_int a (Finite r) = c_trunc (fl32 (a / r))"
| "quotient_to_int a PosInf = 0"
| "quotient_to_int a NegInf = 0"
| "quotient_to_int a NaN = 0"

section \<open>Spike burst detector (\<^verbatim>\<open>spike_mgmt.c\<close>)\<close>

definition MAX_TRACKED_SPIKE_TIME :: int where
  "MAX_TRACKED_SPIKE_TIME = 1000"

definition MAX_BURST_COUNT :: int where
  "MAX_BURST_COUNT = 1000"

definition BURST_COUNT_THRESHOLD :: int where
  "BURST_COUNT_THRESHOLD = 3"

text \<open>
  \<^verbatim>\<open>#define SPIKE_TIME_BIAS(avg, min) ((100 - avg) * min/(2 * 100))\<close>, used with two
  floats: a float subtraction, a float multiplication and a float division.
\<close>

definition SPIKE_TIME_BIAS :: "rat \<Rightarrow> rat \<Rightarrow> rat" where
  "SPIKE_TIME_BIAS avg mn = fl32 (fl32 (fl32 (100 - avg) * mn) / (2 * 100))"

text \<open>The file-scope variables of \<^verbatim>\<open>spike_mgmt.c\<close>.\<close>

record spike_state =
  burst_count :: int
  total_spike_time :: int
  spike_sec_prev :: int
  spike_rate_total :: int
  spike_rate_samples :: int
  burst_rate_per_min :: int
  spike_burst_flag :: bool
  bc_reset_min :: rat
  once_flag :: int
  strike_count :: int

text \<open>The values the variables have when the process starts.\<close>

definition spike_init :: spike_state where
  "spike_init = \<lparr> burst_count = 0, total_spike_time = 0, spike_sec_prev = 0,
     spike_rate_total = 0, spike_rate_samples = 0, burst_rate_per_min = 0,
     spike_burst_flag = False, bc_reset_min = 90, once_flag = 0, strike_count = 0 \<rparr>"

text \<open>
  What one call reads from outside the file: the \<^verbatim>\<open>extern int state_demote\<close>, the
  result of \<^verbatim>\<open>clock_gettime(CLOCK_MONOTONIC, &ts)\<close> (\<open>None\<close> when the call fails,
  otherwise \<^verbatim>\<open>ts.tv_sec\<close>), and the truth value of
  \<^verbatim>\<open>get_cur_state() <= MDRT4E_MODE\<close>, whose two sides are declared in
  \<^verbatim>\<open>state_common.h\<close>.
\<close>

record spike_env =
  state_demote :: int
  clock_sec :: "int option"
  cur_state_le_MDRT4E :: bool

datatype spike_error = DivisionByZero

text \<open>\<^verbatim>\<open>update_spike_rate_avg\<close> and \<^verbatim>\<open>clear_spike_rate_avg\<close>; both return 1.\<close>

definition update_spike_rate_avg :: "int \<Rightarrow> spike_state \<Rightarrow> spike_state" where
  "update_spike_rate_avg sr s =
     s\<lparr> spike_rate_total := spike_rate_total s + sr,
        spike_rate_samples := spike_rate_samples s + 1 \<rparr>"

definition clear_spike_rate_avg :: "spike_state \<Rightarrow> spike_state" where
  "clear_spike_rate_avg s = s\<lparr> spike_rate_samples := 0, spike_rate_total := 0 \<rparr>"

text \<open>
  \<^verbatim>\<open>update_burst_count\<close>. The result pairs the returned value with the new state.
  \<open>minutes\<close> is the float \<^verbatim>\<open>(float)(ts.tv_sec - spike_sec_prev) / bc_reset_min\<close>.
\<close>

definition update_burst_count :: "int \<Rightarrow> spike_env \<Rightarrow> spike_state \<Rightarrow> int \<times> spike_state" where
  "update_burst_count real_spike_burst e s =
     (case clock_sec e of
        None \<Rightarrow> (- 1, s)
      | Some tv_sec \<Rightarrow>
          if spike_sec_prev s \<noteq> 0 then
            let minutes = float_div (int_to_float (tv_sec - spike_sec_prev s)) (bc_reset_min s);
                s1 = (if real_spike_burst \<noteq> 0 \<and> cur_state_le_MDRT4E e
                      then s\<lparr> burst_count := burst_count s + 1,
                              spike_sec_prev := to_int32 tv_sec \<rparr>
                      else if float_gt1 minutes \<or> burst_count s > MAX_BURST_COUNT
                      then s\<lparr> burst_count := 0, spike_sec_prev := to_int32 tv_sec \<rparr>
                      else s);
                s2 = (if float_lt1 minutes
                      then s1\<lparr> burst_rate_per_min := burst_count s1 \<rparr>
                      else if float_nonzero minutes \<and> float_gt1 minutes
                      then s1\<lparr> burst_rate_per_min :=
                                quotient_to_int (int_to_float (burst_count s1)) minutes \<rparr>
                      else s1)
            in (burst_rate_per_min s2, s2)
          else (0, s\<lparr> spike_sec_prev := to_int32 tv_sec \<rparr>))"

definition get_burst_rate_per_min :: "spike_state \<Rightarrow> int" where
  "get_burst_rate_per_min s = burst_rate_per_min s"

definition fresh_burst_response :: "int \<Rightarrow> spike_state \<Rightarrow> int" where
  "fresh_burst_response initial_burst_rate s =
     (if initial_burst_rate = 0 then 0
      else if initial_burst_rate \<ge> BURST_COUNT_THRESHOLD
              \<or> get_burst_rate_per_min s > initial_burst_rate then 1
      else 0)"

definition burst_rate_breach :: "spike_state \<Rightarrow> int" where
  "burst_rate_breach s = (if get_burst_rate_per_min s \<ge> BURST_COUNT_THRESHOLD then 1 else 0)"

definition get_spike_rate :: "spike_state \<Rightarrow> int" where
  "get_spike_rate s =
     (let spike_pct = total_spike_time s * 100 sdiv MAX_TRACKED_SPIKE_TIME
      in if spike_pct > 100 then 100 else spike_pct)"

text \<open>\<^verbatim>\<open>add_spike_time\<close>; the C function returns 1.\<close>

definition add_spike_time :: "int \<Rightarrow> spike_env \<Rightarrow> spike_state \<Rightarrow> spike_state" where
  "add_spike_time duration e s =
     (let s1 = (if total_spike_time s < MAX_TRACKED_SPIKE_TIME
                then s\<lparr> total_spike_time := total_spike_time s + duration \<rparr> else s);
          s2 = (if \<not> spike_burst_flag s1
                then s1\<lparr> spike_burst_flag := True \<rparr>
                else if state_demote e \<noteq> 0 \<and> once_flag s1 = 0
                then (snd (update_burst_count 1 e s1))\<lparr> once_flag := 1 \<rparr>
                else s1);
          spike_rate = get_spike_rate s2
      in update_spike_rate_avg spike_rate s2)"

text \<open>
  \<^verbatim>\<open>add_non_spike_time\<close>; the C function returns 1. The division
  \<^verbatim>\<open>spike_rate_total / spike_rate_samples\<close> is an \<^verbatim>\<open>int\<close> division whose quotient
  is then converted to the float \<^verbatim>\<open>avg\<close>; with a zero divisor the call yields
  \<open>Inl DivisionByZero\<close>. The difference \<^verbatim>\<open>60.0 - (int)SPIKE_TIME_BIAS(...)\<close> is a
  \<^verbatim>\<open>double\<close>, exact for every \<^verbatim>\<open>int\<close>, and is rounded when it is stored in
  \<^verbatim>\<open>bc_reset_min\<close>.
\<close>

definition add_non_spike_time :: "int \<Rightarrow> spike_env \<Rightarrow> spike_state \<Rightarrow> spike_error + spike_state" where
  "add_non_spike_time duration e s =
     (let s1 = (if total_spike_time s > 0
                then s\<lparr> total_spike_time := total_spike_time s - duration \<rparr> else s);
          s2 = s1\<lparr> total_spike_time :=
                    (if total_spike_time s1 < 0 then 0 else total_spike_time s1) \<rparr>;
          sr = get_spike_rate s2
      in if sr = 0 \<and> spike_burst_flag s2 then
           let s3 = s2\<lparr> spike_burst_flag := False \<rparr>
           in if spike_rate_samples s3 = 0 then Inl DivisionByZero
              else
                let avg = int_to_float (spike_rate_total s3 sdiv spike_rate_samples s3);
                    s4 = (if once_flag s3 = 0 then snd (update_burst_count 1 e s3) else s3);
                    s5 = s4\<lparr> bc_reset_min :=
                              fl32 (60 - of_int (c_trunc (SPIKE_TIME_BIAS avg (bc_reset_min s4)))) \<rparr>;
                    s6 = clear_spike_rate_avg s5
                in Inr (s6\<lparr> once_flag := 0 \<rparr>)
         else Inr ((snd (update_burst_count 0 e s2))\<lparr> once_flag := 0 \<rparr>))"

text \<open>\<^verbatim>\<open>strikeout_once\<close>: the returned value and the new state.\<close>

definition strikeout_once :: "int \<Rightarrow> spike_state \<Rightarrow> int \<times> spike_state" where
  "strikeout_once n s =
     (let s1 = (if strike_count s = 0 then s\<lparr> strike_count := n \<rparr>
                else s\<lparr> strike_count := strike_count s - 1 \<rparr>);
          s2 = (if strike_count s1 < 0 then s1\<lparr> strike_count := 0 \<rparr> else s1)
      in (strike_count s2, s2))"

text \<open>A series of \<^verbatim>\<open>strikeout_once\<close> calls: the values returned, in order, and the final state.\<close>

fun strikeout_calls :: "int list \<Rightarrow> spike_state \<Rightarrow> int list \<times> spike_state" where
  "strikeout_calls [] s = ([], s)"
| "strikeout_calls (n # ns) s =
     (let (r, s1) = strikeout_once n s;
          (rs, s2) = strikeout_calls ns s1
      in (r # rs, s2))"

text \<open>
  The two entry points of the detector, \<^verbatim>\<open>add_spike_time(duration)\<close> and
  \<^verbatim>\<open>add_non_spike_time(duration)\<close>, and a series of calls to them, each with what
  it reads from its environment. A run stops at the first error.
\<close>

datatype spike_call = Spike int | NonSpike int

fun call_duration :: "spike_call \<Rightarrow> int" where
  "call_duration (Spike d) = d"
| "call_duration (NonSpike d) = d"

fun spike_step :: "spike_env \<times> spike_call \<Rightarrow> spike_state \<Rightarrow> spike_error + spike_state" where
  "spike_step (e, Spike d) s = Inr (add_spike_time d e s)"
| "spike_step (e, NonSpike d) s = add_non_spike_time d e s"

fun spike_run :: "(spike_env \<times> spike_call) list \<Rightarrow> spike_state \<Rightarrow> spike_error + spike_state" where
  "spike_run [] s = Inr s"
| "spike_run (c # cs) s =
     (case spike_step c s of Inl err \<Rightarrow> Inl err | Inr s1 \<Rightarrow> spike_run cs s1)"

text \<open>The invariant that links the in-burst flag to the number of averaged samples.\<close>

definition samples_inv :: "spike_state \<Rightarrow> bool" where
  "samples_inv s \<longleftrightarrow>
     0 \<le> spike_rate_samples s \<and> (spike_burst_flag s \<longrightarrow> 1 \<le> spike_rate_samples s)"

text \<open>The range that \<^verbatim>\<open>total_spike_time\<close> stays in when no duration exceeds \<open>D\<close>.\<close>

definition time_inv :: "int \<Rightarrow> spike_state \<Rightarrow> bool" where
  "time_inv D s \<longleftrightarrow>
     0 \<le> total_spike_time s \<and> total_spike_time s \<le> MAX_TRACKED_SPIKE_TIME - 1 + D"

text \<open>An environment in which the clock reads \<open>t\<close> and the state gate is open.\<close>

definition spike_env_at :: "int \<Rightarrow> int \<Rightarrow> spike_env" where
  "spike_env_at demote t =
     \<lparr> state_demote = demote, clock_sec = Some t, cur_state_le_MDRT4E = True \<rparr>"

text \<open>
  A first non-spike sample at second 50, which only records the time in
  \<^verbatim>\<open>spike_sec_prev\<close>, and then a burst: two spikes of 100 at seconds 100 and 101 and two
  non-spike samples of 100 at seconds 102 and 103, the second of which brings the spike
  rate to 0.
\<close>

definition priming_call :: "int \<Rightarrow> (spike_env \<times> spike_call) list" where
  "priming_call demote = [(spike_env_at demote 50, NonSpike 100)]"

definition one_burst :: "int \<Rightarrow> (spike_env \<times> spike_call) list" where
  "one_burst demote =
     [(spike_env_at demote 100, Spike 100), (spike_env_at demote 101, Spike 100),
      (spike_env_at demote 102, NonSpike 100), (spike_env_at demote 103, NonSpike 100)]"

section \<open>Utilization monitor (\<^verbatim>\<open>lpmd_util.c\<close>)\<close>

subsection \<open>Counter snapshots and busy percentage\<close>

text \<open>\<^verbatim>\<open>enum type_stat\<close>: the index of each counter in \<^verbatim>\<open>stat[STAT_MAX]\<close>.\<close>

definition STAT_CPU :: nat where "STAT_CPU = 0"
definition STAT_USER :: nat where "STAT_USER = 1"
definition STAT_NICE :: nat where "STAT_NICE = 2"
definition STAT_SYSTEM :: nat where "STAT_SYSTEM = 3"
definition STAT_IDLE :: nat where "STAT_IDLE = 4"
definition STAT_IOWAIT :: nat where "STAT_IOWAIT = 5"
definition STAT_IRQ :: nat where "STAT_IRQ = 6"
definition STAT_SOFTIRQ :: nat where "STAT_SOFTIRQ = 7"
definition STAT_STEAL :: nat where "STAT_STEAL = 8"
definition STAT_GUEST :: nat where "STAT_GUEST = 9"
definition STAT_GUEST_NICE :: nat where "STAT_GUEST_NICE = 10"
definition STAT_MAX :: nat where "STAT_MAX = 11"

text \<open>
  \<^verbatim>\<open>struct proc_stat_info\<close>. The field \<^verbatim>\<open>valid\<close> is called \<open>stat_valid\<close> here, the
  name \<open>valid\<close> being kept for the field of the configuration state. \<open>stat\<close> is a list
  of \<open>STAT_MAX\<close> counters.
\<close>

record proc_stat_info =
  cpu :: int
  stat_valid :: int
  stat :: "64 word list"

text \<open>An entry as \<^verbatim>\<open>calloc\<close> and \<^verbatim>\<open>memset\<close> leave it.\<close>

definition zero_info :: proc_stat_info where
  "zero_info = \<lparr> cpu = 0, stat_valid = 0, stat = replicate STAT_MAX 0 \<rparr>"

text \<open>
  The loop of \<^verbatim>\<open>calculate_busypct\<close> over the counter indices, carrying
  \<open>(busy, total)\<close> (\<open>total\<close> is written \<open>tot\<close>); the subtractions and sums are
  \<^verbatim>\<open>unsigned long long\<close>.
\<close>

fun busypct_loop ::
  "nat list \<Rightarrow> proc_stat_info \<Rightarrow> proc_stat_info \<Rightarrow> 64 word \<times> 64 word \<Rightarrow> 64 word \<times> 64 word"
where
  "busypct_loop [] cur prev (busy, tot) = (busy, tot)"
| "busypct_loop (idx # rest) cur prev (busy, tot) =
     (let total1 = tot + (stat cur ! idx - stat prev ! idx);
          busy1 = (if idx \<noteq> STAT_IDLE \<and> idx \<noteq> STAT_IOWAIT
                   then busy + (stat cur ! idx - stat prev ! idx) else busy)
      in busypct_loop rest cur prev (busy1, total1))"

text \<open>
  \<^verbatim>\<open>calculate_busypct\<close>. The quotient is an \<^verbatim>\<open>unsigned long long\<close> that the
  \<^verbatim>\<open>return\<close> converts to \<^verbatim>\<open>int\<close>.
\<close>

definition calculate_busypct :: "proc_stat_info \<Rightarrow> proc_stat_info \<Rightarrow> int" where
  "calculate_busypct cur prev =
     (let (busy, tot) = busypct_loop [STAT_USER ..< STAT_MAX] cur prev (0, 0)
      in if tot \<noteq> 0 then to_int32 (uint (busy * 10000 div tot)) else 0)"

subsection \<open>Reading \<^verbatim>\<open>/proc/stat\<close>\<close>

text \<open>
  One line of the file, as the parsing loop of \<^verbatim>\<open>parse_proc_stat\<close> classifies it
  from its first token \<open>p\<close>:
  \<^item> \<open>OtherLine\<close>: \<open>p\<close> does not start with \<^verbatim>\<open>cpu\<close>; the line is skipped;
  \<^item> \<open>SysLine\<close>: \<^verbatim>\<open>sscanf(p, "cpu%d", &cpu)\<close> returns -1, the aggregate line;
  \<^item> \<open>CpuLine n\<close>: the \<^verbatim>\<open>sscanf\<close> returns 1 and stores \<open>n\<close>;
  \<^item> \<open>BadCpuLine\<close>: any other result; the line is skipped.

  The list holds, for each further token of the line, what
  \<^verbatim>\<open>sscanf(p, "%llu", &info->stat[idx])\<close> does with it: \<open>Some v\<close> when it stores \<open>v\<close>,
  \<open>None\<close> when it fails and leaves the counter as it is.
\<close>

datatype stat_line =
    OtherLine
  | SysLine "64 word option list"
  | CpuLine int "64 word option list"
  | BadCpuLine

text \<open>
  The inner \<^verbatim>\<open>while (p != NULL)\<close> loop, after the first token has moved \<open>idx\<close> from
  \<open>STAT_CPU\<close> to \<open>STAT_USER\<close>.
\<close>

fun fill_stat :: "nat \<Rightarrow> 64 word option list \<Rightarrow> 64 word list \<Rightarrow> 64 word list" where
  "fill_stat idx [] st = st"
| "fill_stat idx (tok # toks) st =
     (if idx \<ge> STAT_MAX then st
      else fill_stat (idx + 1) toks (case tok of Some v \<Rightarrow> st[idx := v] | None \<Rightarrow> st))"

definition mark_line :: "64 word option list \<Rightarrow> proc_stat_info \<Rightarrow> proc_stat_info" where
  "mark_line toks info = info\<lparr> stat_valid := 1, stat := fill_stat STAT_USER toks (stat info) \<rparr>"

datatype parse_error = OutOfBounds

text \<open>
  One iteration of the outer loop on the array \<^verbatim>\<open>proc_stat_cur\<close>. A CPU number
  outside the array is a write out of bounds.
\<close>

fun store_line :: "nat \<Rightarrow> stat_line \<Rightarrow> proc_stat_info list \<Rightarrow> parse_error + proc_stat_info list" where
  "store_line sys_idx OtherLine cur = Inr cur"
| "store_line sys_idx BadCpuLine cur = Inr cur"
| "store_line sys_idx (SysLine toks) cur =
     (if sys_idx < length cur then Inr (cur[sys_idx := mark_line toks (cur ! sys_idx)])
      else Inl OutOfBounds)"
| "store_line sys_idx (CpuLine n toks) cur =
     (if 0 \<le> n \<and> nat n < length cur then Inr (cur[nat n := mark_line toks (cur ! nat n)])
      else Inl OutOfBounds)"

fun store_lines :: "nat \<Rightarrow> stat_line list \<Rightarrow> proc_stat_info list \<Rightarrow> parse_error + proc_stat_info list" where
  "store_lines sys_idx [] cur = Inr cur"
| "store_lines sys_idx (l # ls) cur =
     (case store_line sys_idx l cur of
        Inl err \<Rightarrow> Inl err
      | Inr cur1 \<Rightarrow> store_lines sys_idx ls cur1)"

text \<open>
  The loop \<^verbatim>\<open>for (i = 1; i <= get_max_online_cpu(); i++)\<close> that computes
  \<^verbatim>\<open>busy_cpu\<close>, over the list of its indices.
\<close>

fun busy_cpu_loop :: "nat list \<Rightarrow> proc_stat_info list \<Rightarrow> proc_stat_info list \<Rightarrow> int \<Rightarrow> int" where
  "busy_cpu_loop [] cur prev busy_cpu = busy_cpu"
| "busy_cpu_loop (i # rest) cur prev busy_cpu =
     (if stat_valid (cur ! i) = 0 then busy_cpu_loop rest cur prev busy_cpu
      else
        let val = calculate_busypct (cur ! i) (prev ! i)
        in busy_cpu_loop rest cur prev (if busy_cpu < val then val else busy_cpu))"

text \<open>
  The globals that \<^verbatim>\<open>parse_proc_stat\<close> works on (\<open>None\<close> is the \<^verbatim>\<open>NULL\<close> pointer),
  and what it reads from outside: \<^verbatim>\<open>get_max_online_cpu()\<close>, which is defined in another
  file and taken to return the same value in every call, the lines of the file (\<open>None\<close>
  when \<^verbatim>\<open>fopen\<close> fails), and whether each \<^verbatim>\<open>calloc\<close> succeeds.
\<close>

record stat_state =
  proc_stat_prev :: "proc_stat_info list option"
  proc_stat_cur :: "proc_stat_info list option"
  busy_sys :: int
  busy_cpu :: int

definition stat_init :: stat_state where
  "stat_init = \<lparr> proc_stat_prev = None, proc_stat_cur = None, busy_sys = - 1, busy_cpu = - 1 \<rparr>"

record stat_env =
  max_online_cpu :: nat
  proc_stat_file :: "stat_line list option"
  calloc_prev_ok :: bool
  calloc_cur_ok :: bool

text \<open>\<^verbatim>\<open>parse_proc_stat\<close>: the returned value and the new globals.\<close>

definition parse_proc_stat :: "stat_env \<Rightarrow> stat_state \<Rightarrow> parse_error + (int \<times> stat_state)" where
  "parse_proc_stat e s =
     (let count = max_online_cpu e + 1;
          sys_idx = count - 1
      in case proc_stat_file e of
           None \<Rightarrow> Inr (1, s)
         | Some lines \<Rightarrow>
             if proc_stat_prev s = None \<and> \<not> calloc_prev_ok e then Inr (1, s)
             else
               let prev0 = (case proc_stat_prev s of
                              None \<Rightarrow> replicate count zero_info | Some a \<Rightarrow> a)
               in if proc_stat_cur s = None \<and> \<not> calloc_cur_ok e
                  then Inr (1, s\<lparr> proc_stat_prev := None \<rparr>)
                  else
                    let cur0 = (case proc_stat_cur s of
                                  None \<Rightarrow> replicate count zero_info | Some a \<Rightarrow> a);
                        prev1 = cur0;
                        cur1 = replicate count zero_info
                    in case store_lines sys_idx lines cur1 of
                         Inl err \<Rightarrow> Inl err
                       | Inr cur2 \<Rightarrow>
                           let bsys = calculate_busypct (cur2 ! sys_idx) (prev1 ! sys_idx);
                               bcpu = busy_cpu_loop [1 ..< max_online_cpu e + 1] cur2 prev1 0
                           in Inr (0, s\<lparr> proc_stat_prev := Some prev1,
                                         proc_stat_cur := Some cur2,
                                         busy_sys := bsys, busy_cpu := bcpu \<rparr>))"

subsection \<open>Hysteresis of the simple classifier\<close>

datatype system_status = SYS_IDLE | SYS_NORMAL | SYS_OVERLOAD | SYS_UNKNOWN

record timespec =
  tv_sec :: int
  tv_nsec :: int

definition DECAY_PERIOD :: "64 word" where
  "DECAY_PERIOD = 5"

text \<open>The \<^verbatim>\<open>unsigned long\<close> statics of the hysteresis and the two time stamps.\<close>

record hyst_state =
  tp_last_in :: timespec
  tp_last_out :: timespec
  util_out_hyst :: "64 word"
  util_in_hyst :: "64 word"
  util_in_min :: "64 word"
  util_out_min :: "64 word"
  avg_in :: "64 word"
  avg_out :: "64 word"

text \<open>
  The elapsed time in milliseconds, as both branches compute it: the difference in
  nanoseconds is a \<^verbatim>\<open>long\<close> stored in an \<^verbatim>\<open>unsigned long\<close>, then divided.
\<close>

definition elapsed_ms :: "timespec \<Rightarrow> timespec \<Rightarrow> 64 word" where
  "elapsed_ms tp_now tp_last =
     (word_of_int ((tv_sec tp_now - tv_sec tp_last) * 1000000000
                   + tv_nsec tp_now - tv_nsec tp_last) :: 64 word) div 1000000"

text \<open>
  \<^verbatim>\<open>util_should_proceed\<close>; \<open>tp_now\<close> is what \<^verbatim>\<open>clock_gettime\<close> stores. The result is
  the returned value and the new statics.
\<close>

definition util_should_proceed :: "system_status \<Rightarrow> timespec \<Rightarrow> hyst_state \<Rightarrow> int \<times> hyst_state" where
  "util_should_proceed status tp_now h =
     (if util_out_hyst h = 0 \<and> util_in_hyst h = 0 then (1, h)
      else if status = SYS_IDLE then
        let cur_out = elapsed_ms tp_now (tp_last_out h);
            h1 = h\<lparr> avg_out := avg_out h * (DECAY_PERIOD - 1) div DECAY_PERIOD
                                + cur_out div DECAY_PERIOD \<rparr>
        in if avg_in h1 \<ge> util_in_hyst h1 \<and> cur_out \<ge> util_out_min h1 then (1, h1)
           else (0, h1\<lparr> avg_in := avg_in h1 * (DECAY_PERIOD + 1) div DECAY_PERIOD \<rparr>)
      else if status = SYS_OVERLOAD then
        let cur_in = elapsed_ms tp_now (tp_last_in h);
            h1 = h\<lparr> avg_in := avg_in h * (DECAY_PERIOD - 1) div DECAY_PERIOD
                               + cur_in div DECAY_PERIOD \<rparr>
        in if avg_out h1 \<ge> util_out_hyst h1 \<and> cur_in \<ge> util_in_min h1 then (1, h1)
           else (0, h1\<lparr> avg_out := avg_out h1 * (DECAY_PERIOD + 1) div DECAY_PERIOD \<rparr>)
      else (0, h))"

subsection \<open>Configuration states\<close>

text \<open>
  The fields of \<^verbatim>\<open>lpmd_config_state_t\<close> that \<^verbatim>\<open>lpmd_util.c\<close> uses; the type is
  declared in \<^verbatim>\<open>lpmd.h\<close>. \<open>active_cpus\<close> and \<open>name\<close> are character arrays;
  the field \<^verbatim>\<open>id\<close> is called \<open>state_id\<close>.
\<close>

record lpmd_config_state =
  state_id :: int
  name :: string
  valid :: int
  wlt_type :: int
  entry_system_load_thres :: int
  exit_system_load_hyst :: int
  enter_cpu_load_thres :: int
  exit_cpu_load_thres :: int
  enter_gfx_load_thres :: int
  entry_load_sys :: int
  entry_load_cpu :: int
  min_poll_interval :: int
  max_poll_interval :: int
  poll_interval_increment :: int
  epp :: int
  epb :: int
  itmt_state :: int
  irq_migrate :: int
  active_cpus :: string

text \<open>
  The calls that \<^verbatim>\<open>enter_state\<close> makes to functions of other files, with their
  arguments, in the order they are made. \<open>CPUMASK_UTIL\<close>, \<open>CPUMASK_MAX\<close>,
  \<open>UTIL_ENTER\<close> and \<open>SETTING_IGNORE\<close> are constants of \<^verbatim>\<open>lpmd.h\<close>.
\<close>

datatype actuator_call =
    Set_lpm_epp int
  | Set_lpm_epb int
  | Set_lpm_itmt int
  | Reset_cpus_CPUMASK_UTIL
  | Parse_cpu_str_CPUMASK_UTIL string
  | Set_lpm_irq_CPUMASK_UTIL
  | Set_lpm_irq_SETTING_IGNORE
  | Set_lpm_cpus_CPUMASK_UTIL
  | Set_lpm_cpus_CPUMASK_MAX
  | Process_lpm_UTIL_ENTER

text \<open>
  The state of the matcher: the array \<^verbatim>\<open>config->config_states\<close> (whose length is
  \<^verbatim>\<open>config_state_count\<close>), the pointer \<^verbatim>\<open>current_state\<close> as an index into it
  (\<open>None\<close> for \<^verbatim>\<open>NULL\<close>), the static \<^verbatim>\<open>interval\<close> of \<^verbatim>\<open>enter_state\<close>, and the
  calls made so far.
\<close>

record matcher_state =
  config_states :: "lpmd_config_state list"
  current_state :: "nat option"
  interval :: int
  actuator_calls :: "actuator_call list"

definition DEFAULT_POLL_RATE_MS :: int where
  "DEFAULT_POLL_RATE_MS = 1000"

definition matcher_init :: "lpmd_config_state list \<Rightarrow> matcher_state" where
  "matcher_init states = \<lparr> config_states = states, current_state = None,
     interval = DEFAULT_POLL_RATE_MS, actuator_calls = [] \<rparr>"

definition reset_config_state :: "matcher_state \<Rightarrow> matcher_state" where
  "reset_config_state m = m\<lparr> current_state := None \<rparr>"

text \<open>
  \<^verbatim>\<open>state_match\<close>. \<open>current\<close> is \<^verbatim>\<open>current_state\<close> and \<open>i\<close> the index of \<open>state\<close> in
  the array, so that \<^verbatim>\<open>state != current_state\<close> is \<open>current \<noteq> Some i\<close>. The
  \<^verbatim>\<open>goto unmatch\<close> is the result 0.
\<close>

definition state_match ::
  "nat option \<Rightarrow> nat \<Rightarrow> lpmd_config_state \<Rightarrow> int \<Rightarrow> int \<Rightarrow> int \<Rightarrow> int \<Rightarrow> int"
where
  "state_match current i state bsys bcpu bgfx wlt_index =
     (if valid state = 0 then 0
      else if wlt_type state \<noteq> - 1 \<and> wlt_type state \<noteq> wlt_index then 0
      else if wlt_type state \<noteq> - 1 \<and> enter_gfx_load_thres state = 0 then 1
      else if enter_cpu_load_thres state = 0 \<and> entry_system_load_thres state = 0
              \<and> enter_gfx_load_thres state = 0 then 1
      else if enter_cpu_load_thres state \<noteq> 0 \<and> bcpu > enter_cpu_load_thres state then 0
      else if enter_gfx_load_thres state \<noteq> 0 \<and> bgfx \<noteq> - 1
              \<and> bgfx > enter_gfx_load_thres state then 0
      else if entry_system_load_thres state \<noteq> 0 \<and> bsys > entry_system_load_thres state then
        (if exit_system_load_hyst state = 0 \<or> current \<noteq> Some i then 0
         else if bsys > entry_load_sys state + exit_system_load_hyst state
                 \<or> bsys > entry_system_load_thres state + exit_system_load_hyst state then 0
         else 1)
      else 1)"

text \<open>
  \<^verbatim>\<open>enter_state\<close> for the state at index \<open>i\<close>; \<open>ignore\<close> is the value of
  \<open>SETTING_IGNORE\<close>. The result is the returned interval and the new matcher state.
\<close>

definition enter_state :: "int \<Rightarrow> nat \<Rightarrow> int \<Rightarrow> int \<Rightarrow> matcher_state \<Rightarrow> int \<times> matcher_state" where
  "enter_state ignore i bsys bcpu m =
     (let state = (config_states m ! i)\<lparr> entry_load_sys := bsys, entry_load_cpu := bcpu \<rparr>;
          m1 = m\<lparr> config_states := (config_states m)[i := state] \<rparr>
      in if current_state m1 = Some i then
           let iv1 = (if poll_interval_increment state > 0
                      then interval m1 + poll_interval_increment state else interval m1);
               iv2 = (if poll_interval_increment state = - 1
                      then ((max_poll_interval state * (10000 - bcpu) sdiv 10000) sdiv 100) * 100
                      else iv1);
               iv3 = (if min_poll_interval state \<noteq> 0 \<and> iv2 < min_poll_interval state
                      then min_poll_interval state else iv2);
               iv4 = (if max_poll_interval state \<noteq> 0 \<and> iv3 > max_poll_interval state
                      then max_poll_interval state else iv3)
           in (iv4, m1\<lparr> interval := iv4 \<rparr>)
         else
           let calls =
                 [Set_lpm_epp (epp state), Set_lpm_epb (epb state), Set_lpm_itmt (itmt_state state)]
                 @ (if active_cpus state \<noteq> []
                    then [Reset_cpus_CPUMASK_UTIL, Parse_cpu_str_CPUMASK_UTIL (active_cpus state),
                          (if irq_migrate state \<noteq> ignore then Set_lpm_irq_CPUMASK_UTIL
                           else Set_lpm_irq_SETTING_IGNORE),
                          Set_lpm_cpus_CPUMASK_UTIL]
                    else [Set_lpm_irq_SETTING_IGNORE, Set_lpm_cpus_CPUMASK_MAX])
                 @ [Process_lpm_UTIL_ENTER];
               iv = (if min_poll_interval state \<noteq> 0
                     then min_poll_interval state else DEFAULT_POLL_RATE_MS)
           in (iv, m1\<lparr> interval := iv, current_state := Some i,
                        actuator_calls := actuator_calls m1 @ calls \<rparr>))"

text \<open>
  The \<^verbatim>\<open>for\<close> loop of \<^verbatim>\<open>process_next_config_state\<close> over the indices still to be
  scanned; \<^verbatim>\<open>interval\<close> starts at -1. The call of \<^verbatim>\<open>dump_system_status\<close> that
  follows the loop only writes a log line.
\<close>

fun config_state_loop ::
  "int \<Rightarrow> nat list \<Rightarrow> int \<Rightarrow> int \<Rightarrow> int \<Rightarrow> int \<Rightarrow> matcher_state \<Rightarrow> int \<times> matcher_state"
where
  "config_state_loop ignore [] bsys bcpu bgfx wlt_index m = (- 1, m)"
| "config_state_loop ignore (i # rest) bsys bcpu bgfx wlt_index m =
     (if state_match (current_state m) i (config_states m ! i) bsys bcpu bgfx wlt_index \<noteq> 0
      then enter_state ignore i bsys bcpu m
      else config_state_loop ignore rest bsys bcpu bgfx wlt_index m)"

definition process_next_config_state ::
  "int \<Rightarrow> int \<Rightarrow> int \<Rightarrow> int \<Rightarrow> int \<Rightarrow> matcher_state \<Rightarrow> int \<times> matcher_state"
where
  "process_next_config_state ignore bsys bcpu bgfx wlt_index m =
     config_state_loop ignore [0 ..< length (config_states m)] bsys bcpu bgfx wlt_index m"

subsection \<open>Sample inputs\<close>

text \<open>A snapshot entry with the given ten counters \<^verbatim>\<open>user\<close> to \<^verbatim>\<open>guest_nice\<close>.\<close>

definition counters :: "64 word list \<Rightarrow> proc_stat_info" where
  "counters xs = \<lparr> cpu = 0, stat_valid = 1, stat = 0 # xs \<rparr>"

text \<open>
  A first sampling round on a machine with CPUs 0 and 1, for which
  \<^verbatim>\<open>get_max_online_cpu()\<close> is 2: CPU 0 has been busy all the time, CPU 1 idle all the
  time, and the aggregate line is their sum.
\<close>

definition two_cpu_file :: "stat_line list" where
  "two_cpu_file =
     [SysLine (map Some [100, 0, 0, 100, 0, 0, 0, 0, 0, 0]),
      CpuLine 0 (map Some [100, 0, 0, 0, 0, 0, 0, 0, 0, 0]),
      CpuLine 1 (map Some [0, 0, 0, 100, 0, 0, 0, 0, 0, 0]),
      OtherLine]"

definition two_cpu_env :: stat_env where
  "two_cpu_env = \<lparr> max_online_cpu = 2, proc_stat_file = Some two_cpu_file,
     calloc_prev_ok = True, calloc_cur_ok = True \<rparr>"

text \<open>
  The hysteresis statics as the first \<^verbatim>\<open>periodic_util_update\<close> sets them from the
  configured entry and exit hysteresis at time \<open>tp\<close>, and a time stamp given in
  milliseconds.
\<close>

definition hyst_start :: "64 word \<Rightarrow> 64 word \<Rightarrow> timespec \<Rightarrow> hyst_state" where
  "hyst_start in_hyst out_hyst tp = \<lparr> tp_last_in = tp, tp_last_out = tp,
     util_out_hyst = out_hyst, util_in_hyst = in_hyst,
     util_in_min = in_hyst div 2, util_out_min = out_hyst div 2,
     avg_in = in_hyst, avg_out = out_hyst \<rparr>"

definition at_ms :: "int \<Rightarrow> timespec" where
  "at_ms t = \<lparr> tv_sec = t div 1000, tv_nsec = (t mod 1000) * 1000000 \<rparr>"

text \<open>A valid configuration state without workload hint and without thresholds.\<close>

definition plain_state :: lpmd_config_state where
  "plain_state = \<lparr> state_id = 0, name = [], valid = 1, wlt_type = - 1,
     entry_system_load_thres = 0, exit_system_load_hyst = 0, enter_cpu_load_thres = 0,
     exit_cpu_load_thres = 0, enter_gfx_load_thres = 0, entry_load_sys = 0, entry_load_cpu = 0,
     min_poll_interval = 0, max_poll_interval = 0, poll_interval_increment = 0,
     epp = 0, epb = 0, itmt_state = 0, irq_migrate = 0, active_cpus = [] \<rparr>"

text \<open>Entry threshold 50%, exit hysteresis 10%, last entered at a system load of 45%.\<close>

definition sticky_state :: lpmd_config_state where
  "sticky_state = plain_state\<lparr> entry_system_load_thres := 5000,
     exit_system_load_hyst := 1000, entry_load_sys := 4500 \<rparr>"

text \<open>Three states of which, at a system load of 30% and a CPU load of 50%, only the second matches.\<close>

definition three_states :: "lpmd_config_state list" where
  "three_states =
     [plain_state\<lparr> state_id := 1, entry_system_load_thres := 1000 \<rparr>,
      plain_state\<lparr> state_id := 2, entry_system_load_thres := 5000 \<rparr>,
      plain_state\<lparr> state_id := 3, enter_cpu_load_thres := 1000 \<rparr>]"

text \<open>States that poll between 100 ms and 2000 ms in steps of 50 ms, and adaptively from 250 ms.\<close>

definition stepping_state :: lpmd_config_state where
  "stepping_state = plain_state\<lparr> min_poll_interval := 100, max_poll_interval := 2000,
     poll_interval_increment := 50 \<rparr>"

definition adaptive_state :: lpmd_config_state where
  "adaptive_state = plain_state\<lparr> min_poll_interval := 250, max_poll_interval := 1000,
     poll_interval_increment := - 1 \<rparr>"

text \<open>The matcher with the state at index 0 of \<open>states\<close> active.\<close>

definition matcher_in_first :: "lpmd_config_state list \<Rightarrow> matcher_state" where
  "matcher_in_first states = (matcher_init states)\<lparr> current_state := Some 0 \<rparr>"

section \<open>Properties of the spike burst detector\<close>

subsection \<open>What \<^verbatim>\<open>update_burst_count\<close> leaves alone\<close>

lemma update_burst_count_keeps:
  "total_spike_time (snd (update_burst_count r e s)) = total_spike_time s"
  "spike_rate_total (snd (update_burst_count r e s)) = spike_rate_total s"
  "spike_rate_samples (snd (update_burst_count r e s)) = spike_rate_samples s"
  "spike_burst_flag (snd (update_burst_count r e s)) = spike_burst_flag s"
  "bc_reset_min (snd (update_burst_count r e s)) = bc_reset_min s"
  "once_flag (snd (update_burst_count r e s)) = once_flag s"
  "strike_count (snd (update_burst_count r e s)) = strike_count s"
  by (simp_all add: update_burst_count_def Let_def split: option.split)

lemma update_burst_count_counts:
  assumes "clock_sec e = Some t" and "spike_sec_prev s \<noteq> 0" and "cur_state_le_MDRT4E e"
  shows "burst_count (snd (update_burst_count 1 e s)) = burst_count s + 1"
  using assms by (simp add: update_burst_count_def Let_def)

lemma get_spike_rate_update_burst_count:
  "get_spike_rate (snd (update_burst_count r e s)) = get_spike_rate s"
  by (simp add: get_spike_rate_def update_burst_count_keeps)

lemma get_spike_rate_range:
  assumes "0 \<le> total_spike_time s"
  shows "0 \<le> get_spike_rate s \<and> get_spike_rate s \<le> 100"
proof -
  have "0 \<le> total_spike_time s * 100" using assms by simp
  then have "0 \<le> total_spike_time s * 100 sdiv 1000"
    by (simp add: signed_divide_int_def sgn_if)
  then show ?thesis
    by (simp add: get_spike_rate_def MAX_TRACKED_SPIKE_TIME_def Let_def)
qed

lemma get_spike_rate_zero:
  assumes "0 \<le> total_spike_time s" and "total_spike_time s < 10"
  shows "get_spike_rate s = 0"
proof -
  have "0 \<le> total_spike_time s * 100" and "total_spike_time s * 100 < 1000"
    using assms by simp_all
  then have "total_spike_time s * 100 sdiv 1000 = 0"
    by (simp add: signed_divide_int_def sgn_if)
  then show ?thesis
    by (simp add: get_spike_rate_def MAX_TRACKED_SPIKE_TIME_def Let_def)
qed

subsection \<open>Invariants of the entry points\<close>

lemma add_spike_time_samples:
  "spike_rate_samples (add_spike_time d e s) = spike_rate_samples s + 1"
  by (simp add: add_spike_time_def update_spike_rate_avg_def Let_def update_burst_count_keeps)

lemma add_spike_time_flag: "spike_burst_flag (add_spike_time d e s)"
  by (simp add: add_spike_time_def update_spike_rate_avg_def Let_def update_burst_count_keeps)

lemma add_spike_time_samples_inv:
  "samples_inv s \<Longrightarrow> samples_inv (add_spike_time d e s)"
  by (simp add: samples_inv_def add_spike_time_samples add_spike_time_flag)

lemma add_non_spike_time_samples_inv:
  assumes "samples_inv s"
  shows "\<exists>s'. add_non_spike_time d e s = Inr s' \<and> samples_inv s'"
  using assms
  by (auto simp: samples_inv_def add_non_spike_time_def clear_spike_rate_avg_def Let_def
      update_burst_count_keeps)

lemma spike_step_samples_inv:
  assumes "samples_inv s"
  shows "\<exists>s'. spike_step c s = Inr s' \<and> samples_inv s'"
proof (cases c)
  case (Pair e k)
  show ?thesis
  proof (cases k)
    case (Spike d)
    with Pair assms show ?thesis by (simp add: add_spike_time_samples_inv)
  next
    case (NonSpike d)
    with Pair add_non_spike_time_samples_inv [OF assms] show ?thesis by simp
  qed
qed

lemma spike_run_samples_inv:
  "samples_inv s \<Longrightarrow> \<exists>s'. spike_run cs s = Inr s' \<and> samples_inv s'"
proof (induction cs arbitrary: s)
  case Nil
  then show ?case by simp
next
  case (Cons c cs)
  from spike_step_samples_inv [OF Cons.prems]
  obtain s1 where s1: "spike_step c s = Inr s1" "samples_inv s1" by blast
  from Cons.IH [OF s1(2)] s1(1) show ?case by simp
qed

lemma samples_inv_init: "samples_inv spike_init"
  by (simp add: samples_inv_def spike_init_def)

lemma add_spike_time_total:
  "total_spike_time (add_spike_time d e s) =
     (if total_spike_time s < MAX_TRACKED_SPIKE_TIME then total_spike_time s + d
      else total_spike_time s)"
  by (simp add: add_spike_time_def update_spike_rate_avg_def Let_def update_burst_count_keeps)

lemma add_non_spike_time_total:
  "add_non_spike_time d e s = Inr s' \<Longrightarrow>
   total_spike_time s' =
     max 0 (if total_spike_time s > 0 then total_spike_time s - d else total_spike_time s)"
  by (auto simp: add_non_spike_time_def clear_spike_rate_avg_def Let_def
      update_burst_count_keeps split: if_splits)

lemma spike_step_time_inv:
  assumes "time_inv D s" and "0 \<le> call_duration (snd c)" and "call_duration (snd c) \<le> D"
    and "spike_step c s = Inr s'"
  shows "time_inv D s'"
proof (cases c)
  case (Pair e k)
  show ?thesis
  proof (cases k)
    case (Spike d)
    with Pair assms show ?thesis
      by (auto simp: time_inv_def add_spike_time_total MAX_TRACKED_SPIKE_TIME_def)
  next
    case (NonSpike d)
    with Pair assms have "add_non_spike_time d e s = Inr s'" by simp
    from add_non_spike_time_total [OF this] Pair NonSpike assms show ?thesis
      by (auto simp: time_inv_def MAX_TRACKED_SPIKE_TIME_def split: if_splits)
  qed
qed

lemma spike_run_time_inv:
  assumes "time_inv D s"
    and "\<forall>c \<in> set cs. 0 \<le> call_duration (snd c) \<and> call_duration (snd c) \<le> D"
    and "spike_run cs s = Inr s'"
  shows "time_inv D s'"
  using assms
proof (induction cs arbitrary: s)
  case Nil
  then show ?case by simp
next
  case (Cons c cs)
  from Cons.prems(3) obtain s1 where s1: "spike_step c s = Inr s1" "spike_run cs s1 = Inr s'"
    by (auto split: sum.splits)
  have "time_inv D s1"
    using spike_step_time_inv [OF Cons.prems(1) _ _ s1(1)] Cons.prems(2) by simp
  from Cons.IH [OF this _ s1(2)] Cons.prems(2) show ?case by simp
qed

subsection \<open>Claims about the spike burst detector\<close>

text \<open>
  Claim C7 against the code. After a first sample has recorded the time, the detector
  is quiescent with \<^verbatim>\<open>burst_count\<close> at 0. With \<^verbatim>\<open>state_demote\<close> set, the burst of two
  spikes and two non-spike samples is then counted twice: once at the second spike, which
  sets \<^verbatim>\<open>once_flag\<close>, and once more at the falling edge, because the non-spike sample
  before it (spike rate 10) has cleared \<^verbatim>\<open>once_flag\<close>. The falling edge sets
  \<^verbatim>\<open>bc_reset_min\<close> to 22, which is \<open>60 - (100 - 15) * 90 / 200\<close> without its fraction,
  15 being the mean of the two spike rates 10 and 20. With \<^verbatim>\<open>state_demote\<close> clear the
  same samples are counted once.
\<close>

theorem burst_counted_twice:
  "spike_run (priming_call 1) spike_init = Inr (spike_init\<lparr> spike_sec_prev := 50 \<rparr>)
   \<and> map_sum id get_spike_rate
         (spike_run (priming_call 1 @ take 3 (one_burst 1)) spike_init) = Inr 10
   \<and> map_sum id get_spike_rate
         (spike_run (priming_call 1 @ one_burst 1) spike_init) = Inr 0
   \<and> map_sum id burst_count
         (spike_run (priming_call 1 @ one_burst 1) spike_init) = Inr 2
   \<and> map_sum id bc_reset_min
         (spike_run (priming_call 1 @ one_burst 1) spike_init) = Inr 22
   \<and> map_sum id burst_count
         (spike_run (priming_call 0 @ one_burst 0) spike_init) = Inr 1"
proof (intro conjI)
  show "spike_run (priming_call 1) spike_init = Inr (spike_init\<lparr> spike_sec_prev := 50 \<rparr>)"
    by code_simp
  show "map_sum id get_spike_rate
          (spike_run (priming_call 1 @ take 3 (one_burst 1)) spike_init) = Inr 10"
    by code_simp
  show "map_sum id get_spike_rate
          (spike_run (priming_call 1 @ one_burst 1) spike_init) = Inr 0"
    by code_simp
  show "map_sum id burst_count
          (spike_run (priming_call 1 @ one_burst 1) spike_init) = Inr 2"
    by code_simp
  show "map_sum id bc_reset_min
          (spike_run (priming_call 1 @ one_burst 1) spike_init) = Inr 22"
    by code_simp
  show "map_sum id burst_count
          (spike_run (priming_call 0 @ one_burst 0) spike_init) = Inr 1"
    by code_simp
qed
text \<open>
  Claim C8, as the code has it. \<^verbatim>\<open>add_spike_time\<close> tests the cap before it adds, so the
  sum can pass it by less than one duration. For every series of calls from the initial
  state whose durations lie between 0 and \<open>D\<close>, every call returns and afterwards
  \<open>0 \<le> total_spike_time \<le> MAX_TRACKED_SPIKE_TIME - 1 + D\<close>; the cap of the claim holds
  for the spike rate, which stays between 0 and 100.
\<close>

theorem total_spike_time_overshoot:
  assumes "0 \<le> D"
    and "\<forall>c \<in> set cs. 0 \<le> call_duration (snd c) \<and> call_duration (snd c) \<le> D"
  shows "\<exists>s. spike_run cs spike_init = Inr s
           \<and> 0 \<le> total_spike_time s
           \<and> total_spike_time s \<le> MAX_TRACKED_SPIKE_TIME - 1 + D
           \<and> 0 \<le> get_spike_rate s \<and> get_spike_rate s \<le> 100"
proof -
  from spike_run_samples_inv [OF samples_inv_init]
  obtain s where s: "spike_run cs spike_init = Inr s" by blast
  have "time_inv D spike_init"
    using assms(1) by (simp add: time_inv_def spike_init_def MAX_TRACKED_SPIKE_TIME_def)
  from spike_run_time_inv [OF this assms(2) s]
  have t: "0 \<le> total_spike_time s" "total_spike_time s \<le> MAX_TRACKED_SPIKE_TIME - 1 + D"
    by (simp_all add: time_inv_def)
  with get_spike_rate_range [of s] s show ?thesis by simp
qed

theorem total_spike_time_overshoot_witness:
  "total_spike_time (add_spike_time 600 (spike_env_at 0 101)
      (add_spike_time 600 (spike_env_at 0 100) spike_init)) \<le> 1599"
  using total_spike_time_overshoot [of 600
      "[(spike_env_at 0 100, Spike 600), (spike_env_at 0 101, Spike 600)]"]
  by (simp add: MAX_TRACKED_SPIKE_TIME_def)

text \<open>
  Claim C8 as stated fails: two spikes of 600 from the initial state leave
  \<^verbatim>\<open>total_spike_time\<close> at 1200, above \<^verbatim>\<open>MAX_TRACKED_SPIKE_TIME\<close>.
\<close>

theorem total_spike_time_exceeds_cap:
  "\<not> total_spike_time (add_spike_time 600 (spike_env_at 0 101)
      (add_spike_time 600 (spike_env_at 0 100) spike_init)) \<le> MAX_TRACKED_SPIKE_TIME"
  by (simp add: add_spike_time_total spike_init_def MAX_TRACKED_SPIKE_TIME_def)

lemma strikeout_once_eq:
  "strikeout_once n s =
     (if strike_count s = 0 then (max 0 n, s\<lparr>strike_count := max 0 n\<rparr>)
      else (max 0 (strike_count s - 1), s\<lparr>strike_count := max 0 (strike_count s - 1)\<rparr>))"
  by (simp add: strikeout_once_def Let_def max_def)

text \<open>
  Claim C9, as the code has it. \<^verbatim>\<open>strikeout_once(n)\<close> seeds the countdown with \<open>n\<close>
  whenever the stored count is 0 (the first call is one such call), and otherwise takes 1
  off; a negative result is replaced by 0, and the stored count is returned. Seven calls
  \<^verbatim>\<open>strikeout_once(5)\<close> from the initial state return 5, 4, 3, 2, 1, 0 and then 5 again:
  the call after the count has reached 0 seeds it anew.
\<close>

theorem strikeout_once_rearms:
  "fst (strikeout_once n s) =
     (if strike_count s = 0 then max 0 n else max 0 (strike_count s - 1))
   \<and> strike_count (snd (strikeout_once n s)) = fst (strikeout_once n s)
   \<and> fst (strikeout_calls [5, 5, 5, 5, 5, 5, 5] spike_init) = [5, 4, 3, 2, 1, 0, 5]"
proof (intro conjI)
  show "fst (strikeout_once n s) =
     (if strike_count s = 0 then max 0 n else max 0 (strike_count s - 1))"
    by (simp add: strikeout_once_eq)
  show "strike_count (snd (strikeout_once n s)) = fst (strikeout_once n s)"
    by (simp add: strikeout_once_eq)
  show "fst (strikeout_calls [5, 5, 5, 5, 5, 5, 5] spike_init) = [5, 4, 3, 2, 1, 0, 5]"
    by (simp add: strikeout_once_eq spike_init_def)
qed

theorem strikeout_once_rearms_witness:
  "fst (strikeout_once 5 (spike_init\<lparr>strike_count := 0\<rparr>)) = 5
   \<and> fst (strikeout_once 5 (spike_init\<lparr>strike_count := 3\<rparr>)) = 2"
  using strikeout_once_rearms [of 5 "spike_init\<lparr>strike_count := 0\<rparr>"]
    strikeout_once_rearms [of 5 "spike_init\<lparr>strike_count := 3\<rparr>"]
  by simp

text \<open>
  Claim C9 as stated fails at the seventh call, which does not hold at 0 but returns 5.
\<close>

theorem strikeout_once_seventh_call:
  "fst (strikeout_calls [5, 5, 5, 5, 5, 5, 5] spike_init) ! 6 \<noteq> 0"
  by (simp add: strikeout_once_eq spike_init_def)

text \<open>
  Claim C10. Every series of \<^verbatim>\<open>add_spike_time\<close> and \<^verbatim>\<open>add_non_spike_time\<close> calls from
  the initial state returns without a division by zero, and in the state it reaches
  \<^verbatim>\<open>spike_rate_samples\<close> is at least 1 whenever \<^verbatim>\<open>spike_burst_flag\<close> is set.
\<close>

theorem burst_flag_has_samples:
  "\<exists>s. spike_run cs spike_init = Inr s \<and> samples_inv s"
  by (rule spike_run_samples_inv [OF samples_inv_init])

theorem burst_flag_has_samples_witness:
  "spike_burst_flag (add_spike_time 100 (spike_env_at 0 100) spike_init)
   \<and> 1 \<le> spike_rate_samples (add_spike_time 100 (spike_env_at 0 100) spike_init)"
  using burst_flag_has_samples [of "[(spike_env_at 0 100, Spike 100)]"]
  by (auto simp: samples_inv_def add_spike_time_flag)

section \<open>Properties of the utilization monitor\<close>

subsection \<open>Busy percentage\<close>

lemma stat_range: "[STAT_USER ..< STAT_MAX] = [1, 2, 3, 4, 5, 6, 7, 8, 9, 10]"
  by (simp add: STAT_USER_def STAT_MAX_def upt_rec)

lemma busypct_loop_sums:
  "busypct_loop xs cur prev (b, t) =
     (b + sum_list (map (\<lambda>i. if i \<noteq> STAT_IDLE \<and> i \<noteq> STAT_IOWAIT
                               then stat cur ! i - stat prev ! i else 0) xs),
      t + sum_list (map (\<lambda>i. stat cur ! i - stat prev ! i) xs))"
  by (induction xs arbitrary: b t) (simp_all add: Let_def)

text \<open>
  Claim C3, as the code has it. The deltas are differences of \<^verbatim>\<open>unsigned long long\<close>
  values, so a counter that decreased contributes its delta modulo \<open>2 ^ 64\<close>; nothing
  tests for a decrease. If the sum of the deltas of all ten counters is 0 the result is 0
  and no division takes place. Otherwise the result is the quotient of the busy sum
  times 10000 by that total, both taken modulo \<open>2 ^ 64\<close>, converted to \<^verbatim>\<open>int\<close>.
\<close>

theorem calculate_busypct_wrapped:
  "((\<Sum>i = STAT_USER ..< STAT_MAX. stat cur ! i - stat prev ! i) = 0
      \<longrightarrow> calculate_busypct cur prev = 0)
   \<and> ((\<Sum>i = STAT_USER ..< STAT_MAX. stat cur ! i - stat prev ! i) \<noteq> 0
      \<longrightarrow> calculate_busypct cur prev =
            to_int32 (uint ((\<Sum>i = STAT_USER ..< STAT_MAX.
                               if i \<noteq> STAT_IDLE \<and> i \<noteq> STAT_IOWAIT
                               then stat cur ! i - stat prev ! i else 0) * 10000
                            div (\<Sum>i = STAT_USER ..< STAT_MAX. stat cur ! i - stat prev ! i))))"
  by (simp add: calculate_busypct_def busypct_loop_sums interv_sum_list_conv_sum_set_nat)

theorem calculate_busypct_wrapped_witness:
  "calculate_busypct (counters [7, 0, 0, 9, 0, 0, 0, 0, 0, 0])
     (counters [7, 0, 0, 9, 0, 0, 0, 0, 0, 0]) = 0
   \<and> calculate_busypct (counters [150, 0, 0, 1050, 0, 0, 0, 0, 0, 0])
        (counters [100, 0, 0, 1000, 0, 0, 0, 0, 0, 0]) = 5000"
  using calculate_busypct_wrapped [of "counters [7, 0, 0, 9, 0, 0, 0, 0, 0, 0]"
        "counters [7, 0, 0, 9, 0, 0, 0, 0, 0, 0]"]
    calculate_busypct_wrapped [of "counters [150, 0, 0, 1050, 0, 0, 0, 0, 0, 0]"
        "counters [100, 0, 0, 1000, 0, 0, 0, 0, 0, 0]"]
  by (simp add: counters_def STAT_USER_def STAT_MAX_def STAT_IDLE_def STAT_IOWAIT_def to_int32_def
      sum.atLeast_Suc_lessThan)

text \<open>
  Claim C3 as stated fails: when \<^verbatim>\<open>user\<close> falls from 100 to 50 while \<^verbatim>\<open>idle\<close> grows
  from 1000 to 2000, the result is not 0.
\<close>

theorem counter_regression_not_zero:
  "calculate_busypct (counters [50, 0, 0, 2000, 0, 0, 0, 0, 0, 0])
     (counters [100, 0, 0, 1000, 0, 0, 0, 0, 0, 0]) \<noteq> 0"
  by (simp add: calculate_busypct_def stat_range counters_def STAT_IDLE_def STAT_IOWAIT_def
      to_int32_def Let_def)

text \<open>
  Claim C1 against the code. The loop over the per-CPU entries starts at index 1 and ends
  at index \<^verbatim>\<open>get_max_online_cpu()\<close>, which is the entry of the aggregate line. In the
  sample round all three lines are marked valid, CPU 0 is 100% busy and CPU 1 idle; the
  reported \<^verbatim>\<open>busy_cpu\<close> is the 50% of the aggregate line, not the 100% of CPU 0.
\<close>

theorem busy_cpu_skips_cpu0:
  "(case parse_proc_stat two_cpu_env stat_init of
      Inl err \<Rightarrow> False
    | Inr (r, s) \<Rightarrow>
        r = 0 \<and> busy_cpu s = 5000 \<and> busy_sys s = 5000
        \<and> map stat_valid (the (proc_stat_cur s)) = [1, 1, 1]
        \<and> calculate_busypct (the (proc_stat_cur s) ! 0) (the (proc_stat_prev s) ! 0) = 10000
        \<and> calculate_busypct (the (proc_stat_cur s) ! 1) (the (proc_stat_prev s) ! 1) = 0)"
  by code_simp

subsection \<open>Hysteresis\<close>

lemma util_should_proceed_idle:
  assumes "util_out_hyst h \<noteq> 0 \<or> util_in_hyst h \<noteq> 0"
  shows "util_should_proceed SYS_IDLE now h =
     (if avg_in h \<ge> util_in_hyst h \<and> elapsed_ms now (tp_last_out h) \<ge> util_out_min h
      then (1, h\<lparr> avg_out := avg_out h * 4 div 5 + elapsed_ms now (tp_last_out h) div 5 \<rparr>)
      else (0, h\<lparr> avg_out := avg_out h * 4 div 5 + elapsed_ms now (tp_last_out h) div 5,
                  avg_in := avg_in h * 6 div 5 \<rparr>))"
proof -
  have ne: "(util_out_hyst h = 0 \<and> util_in_hyst h = 0) = False" using assms by blast
  show ?thesis
    unfolding util_should_proceed_def ne by (simp add: DECAY_PERIOD_def Let_def)
qed

lemma util_should_proceed_overload:
  assumes "util_out_hyst h \<noteq> 0 \<or> util_in_hyst h \<noteq> 0"
  shows "util_should_proceed SYS_OVERLOAD now h =
     (if avg_out h \<ge> util_out_hyst h \<and> elapsed_ms now (tp_last_in h) \<ge> util_in_min h
      then (1, h\<lparr> avg_in := avg_in h * 4 div 5 + elapsed_ms now (tp_last_in h) div 5 \<rparr>)
      else (0, h\<lparr> avg_in := avg_in h * 4 div 5 + elapsed_ms now (tp_last_in h) div 5,
                  avg_out := avg_out h * 6 div 5 \<rparr>))"
proof -
  have ne: "(util_out_hyst h = 0 \<and> util_in_hyst h = 0) = False" using assms by blast
  show ?thesis
    unfolding util_should_proceed_def ne by (simp add: DECAY_PERIOD_def Let_def)
qed

lemma penalty_unat:
  fixes a :: "64 word"
  assumes "unat a * 6 < 2 ^ 64"
  shows "unat (a * 6 div 5) = unat a * 6 div 5"
proof -
  have "unat (a * 6) = unat a * 6"
    using assms by (simp add: unat_mult_lem [THEN iffD1])
  then show ?thesis by (simp add: unat_div)
qed

lemma penalty_grows:
  fixes a :: "64 word"
  assumes "unat a * 6 < 2 ^ 64"
  shows "a \<le> a * 6 div 5 \<and> (a < a * 6 div 5 \<longleftrightarrow> 5 \<le> a)"
proof -
  have eq: "n * 6 div 5 = n + n div 5" for n :: nat
  proof -
    have "n * 6 div 5 = (n + n * 5) div 5" by simp
    also have "\<dots> = n div 5 + n" by simp
    finally show ?thesis by simp
  qed
  have u: "unat (a * 6 div 5) = unat a + unat a div 5"
    by (simp only: penalty_unat [OF assms] eq)
  have five: "unat (5 :: 64 word) = 5" by simp
  have "a \<le> a * 6 div 5"
    unfolding word_le_nat_alt u by simp
  moreover have "a < a * 6 div 5 \<longleftrightarrow> 5 \<le> a"
    unfolding word_le_nat_alt word_less_nat_alt u five
    by (simp add: div_greater_zero_iff)
  ultimately show ?thesis by simp
qed

lemma idle_rejected:
  assumes "util_out_hyst h \<noteq> 0 \<or> util_in_hyst h \<noteq> 0"
    and "fst (util_should_proceed SYS_IDLE now h) = 0"
  shows "avg_in (snd (util_should_proceed SYS_IDLE now h)) = avg_in h * 6 div 5"
  using assms(2) unfolding util_should_proceed_idle [OF assms(1)] by (auto split: if_splits)

lemma idle_accepted:
  assumes "util_out_hyst h \<noteq> 0 \<or> util_in_hyst h \<noteq> 0"
    and "fst (util_should_proceed SYS_IDLE now h) \<noteq> 0"
  shows "fst (util_should_proceed SYS_IDLE now h) = 1
     \<and> avg_in (snd (util_should_proceed SYS_IDLE now h)) = avg_in h
     \<and> avg_out (snd (util_should_proceed SYS_IDLE now h)) =
          avg_out h * 4 div 5 + elapsed_ms now (tp_last_out h) div 5"
  using assms(2) unfolding util_should_proceed_idle [OF assms(1)] by (auto split: if_splits)

lemma overload_rejected:
  assumes "util_out_hyst h \<noteq> 0 \<or> util_in_hyst h \<noteq> 0"
    and "fst (util_should_proceed SYS_OVERLOAD now h) = 0"
  shows "avg_out (snd (util_should_proceed SYS_OVERLOAD now h)) = avg_out h * 6 div 5"
  using assms(2) unfolding util_should_proceed_overload [OF assms(1)] by (auto split: if_splits)

lemma overload_accepted:
  assumes "util_out_hyst h \<noteq> 0 \<or> util_in_hyst h \<noteq> 0"
    and "fst (util_should_proceed SYS_OVERLOAD now h) \<noteq> 0"
  shows "fst (util_should_proceed SYS_OVERLOAD now h) = 1
     \<and> avg_out (snd (util_should_proceed SYS_OVERLOAD now h)) = avg_out h
     \<and> avg_in (snd (util_should_proceed SYS_OVERLOAD now h)) =
          avg_in h * 4 div 5 + elapsed_ms now (tp_last_in h) div 5"
  using assms(2) unfolding util_should_proceed_overload [OF assms(1)] by (auto split: if_splits)

text \<open>
  Claim C4, as the code has it. With hysteresis enabled, a rejected \<open>SYS_IDLE\<close>
  candidate replaces \<^verbatim>\<open>avg_in\<close> by \<open>avg_in * 6 div 5\<close> and a rejected \<open>SYS_OVERLOAD\<close>
  candidate replaces \<^verbatim>\<open>avg_out\<close> by \<open>avg_out * 6 div 5\<close>, in \<^verbatim>\<open>unsigned long\<close>
  arithmetic. As long as the product does not wrap the average never decreases, and it
  increases strictly exactly when it was at least 5. An accepted candidate leaves the
  penalized average unchanged and has folded the elapsed time into the opposite average
  by \<open>avg * 4 div 5 + cur div 5\<close>.
\<close>

theorem hysteresis_penalty:
  assumes enabled: "util_out_hyst h \<noteq> 0 \<or> util_in_hyst h \<noteq> 0"
  shows "(fst (util_should_proceed SYS_IDLE now h) = 0 \<longrightarrow>
            avg_in (snd (util_should_proceed SYS_IDLE now h)) = avg_in h * 6 div 5)
       \<and> (fst (util_should_proceed SYS_OVERLOAD now h) = 0 \<longrightarrow>
            avg_out (snd (util_should_proceed SYS_OVERLOAD now h)) = avg_out h * 6 div 5)
       \<and> (unat (avg_in h) * 6 < 2 ^ 64 \<longrightarrow>
            avg_in h \<le> avg_in h * 6 div 5 \<and> (avg_in h < avg_in h * 6 div 5 \<longleftrightarrow> 5 \<le> avg_in h))
       \<and> (unat (avg_out h) * 6 < 2 ^ 64 \<longrightarrow>
            avg_out h \<le> avg_out h * 6 div 5
            \<and> (avg_out h < avg_out h * 6 div 5 \<longleftrightarrow> 5 \<le> avg_out h))
       \<and> (fst (util_should_proceed SYS_IDLE now h) \<noteq> 0 \<longrightarrow>
            fst (util_should_proceed SYS_IDLE now h) = 1
            \<and> avg_in (snd (util_should_proceed SYS_IDLE now h)) = avg_in h
            \<and> avg_out (snd (util_should_proceed SYS_IDLE now h)) =
                 avg_out h * 4 div 5 + elapsed_ms now (tp_last_out h) div 5)
       \<and> (fst (util_should_proceed SYS_OVERLOAD now h) \<noteq> 0 \<longrightarrow>
            fst (util_should_proceed SYS_OVERLOAD now h) = 1
            \<and> avg_out (snd (util_should_proceed SYS_OVERLOAD now h)) = avg_out h
            \<and> avg_in (snd (util_should_proceed SYS_OVERLOAD now h)) =
                 avg_in h * 4 div 5 + elapsed_ms now (tp_last_in h) div 5)"
proof (intro conjI)
  show "fst (util_should_proceed SYS_IDLE now h) = 0 \<longrightarrow>
          avg_in (snd (util_should_proceed SYS_IDLE now h)) = avg_in h * 6 div 5"
    using idle_rejected [OF enabled] by (rule impI)
  show "fst (util_should_proceed SYS_OVERLOAD now h) = 0 \<longrightarrow>
          avg_out (snd (util_should_proceed SYS_OVERLOAD now h)) = avg_out h * 6 div 5"
    using overload_rejected [OF enabled] by (rule impI)
  show "unat (avg_in h) * 6 < 2 ^ 64 \<longrightarrow>
          avg_in h \<le> avg_in h * 6 div 5 \<and> (avg_in h < avg_in h * 6 div 5 \<longleftrightarrow> 5 \<le> avg_in h)"
    using penalty_grows by (rule impI)
  show "unat (avg_out h) * 6 < 2 ^ 64 \<longrightarrow>
          avg_out h \<le> avg_out h * 6 div 5
          \<and> (avg_out h < avg_out h * 6 div 5 \<longleftrightarrow> 5 \<le> avg_out h)"
    using penalty_grows by (rule impI)
  show "fst (util_should_proceed SYS_IDLE now h) \<noteq> 0 \<longrightarrow>
            fst (util_should_proceed SYS_IDLE now h) = 1
            \<and> avg_in (snd (util_should_proceed SYS_IDLE now h)) = avg_in h
            \<and> avg_out (snd (util_should_proceed SYS_IDLE now h)) =
                 avg_out h * 4 div 5 + elapsed_ms now (tp_last_out h) div 5"
    using idle_accepted [OF enabled] by (rule impI)
  show "fst (util_should_proceed SYS_OVERLOAD now h) \<noteq> 0 \<longrightarrow>
            fst (util_should_proceed SYS_OVERLOAD now h) = 1
            \<and> avg_out (snd (util_should_proceed SYS_OVERLOAD now h)) = avg_out h
            \<and> avg_in (snd (util_should_proceed SYS_OVERLOAD now h)) =
                 avg_in h * 4 div 5 + elapsed_ms now (tp_last_in h) div 5"
    using overload_accepted [OF enabled] by (rule impI)
qed

lemma elapsed_ms_500: "elapsed_ms (at_ms 500) (at_ms 0) = 500"
  by (simp add: elapsed_ms_def at_ms_def)

lemma elapsed_ms_1500: "elapsed_ms (at_ms 1500) (at_ms 0) = 1500"
  by (simp add: elapsed_ms_def at_ms_def)

theorem hysteresis_penalty_witness:
  "fst (util_should_proceed SYS_IDLE (at_ms 500) (hyst_start 1000 2000 (at_ms 0))) = 0
   \<and> avg_in (snd (util_should_proceed SYS_IDLE (at_ms 500) (hyst_start 1000 2000 (at_ms 0))))
       = 1200
   \<and> fst (util_should_proceed SYS_IDLE (at_ms 1500) (hyst_start 1000 2000 (at_ms 0))) = 1
   \<and> avg_in (snd (util_should_proceed SYS_IDLE (at_ms 1500) (hyst_start 1000 2000 (at_ms 0))))
       = 1000
   \<and> avg_out (snd (util_should_proceed SYS_IDLE (at_ms 1500) (hyst_start 1000 2000 (at_ms 0))))
       = 1900"
proof -
  have r: "fst (util_should_proceed SYS_IDLE (at_ms 500) (hyst_start 1000 2000 (at_ms 0))) = 0"
    by (simp add: util_should_proceed_idle hyst_start_def elapsed_ms_500)
  have a: "fst (util_should_proceed SYS_IDLE (at_ms 1500) (hyst_start 1000 2000 (at_ms 0))) = 1"
    by (simp add: util_should_proceed_idle hyst_start_def elapsed_ms_1500)
  have e: "util_out_hyst (hyst_start 1000 2000 (at_ms 0)) \<noteq> 0
           \<or> util_in_hyst (hyst_start 1000 2000 (at_ms 0)) \<noteq> 0"
    by (simp add: hyst_start_def)
  from hysteresis_penalty [OF e, of "at_ms 500"] hysteresis_penalty [OF e, of "at_ms 1500"] r a
  show ?thesis
    by (simp add: hyst_start_def elapsed_ms_1500)
qed

text \<open>
  Claim C4 as stated fails: with an entry hysteresis of 0 and an exit hysteresis of
  2000 ms, a \<open>SYS_IDLE\<close> candidate 500 ms after the last exit is rejected and \<^verbatim>\<open>avg_in\<close>
  stays at 0.
\<close>

theorem rejected_idle_keeps_zero_avg_in:
  "fst (util_should_proceed SYS_IDLE (at_ms 500) (hyst_start 0 2000 (at_ms 0))) = 0
   \<and> \<not> avg_in (hyst_start 0 2000 (at_ms 0))
         < avg_in (snd (util_should_proceed SYS_IDLE (at_ms 500) (hyst_start 0 2000 (at_ms 0))))"
  by (simp add: util_should_proceed_idle hyst_start_def elapsed_ms_500)

subsection \<open>Matching and entering configuration states\<close>

text \<open>
  Claim C2, as the code has it. For a valid state that is the active one, whose
  workload hint (if any) matches together with a gfx threshold, with a positive
  \<^verbatim>\<open>exit_system_load_hyst\<close>, passing cpu and gfx checks and a non-zero entry threshold
  that \<open>bsys\<close> exceeds: \<^verbatim>\<open>state_match\<close> accepts if and only if \<open>bsys\<close> exceeds neither
  \<open>entry_load_sys + hyst\<close> nor \<open>entry_system_load_thres + hyst\<close>.
\<close>

theorem state_match_sticky:
  assumes "valid state \<noteq> 0"
    and "wlt_type state = - 1 \<or> (wlt_type state = wlt_index \<and> enter_gfx_load_thres state \<noteq> 0)"
    and "current = Some i"
    and "0 < exit_system_load_hyst state"
    and "enter_cpu_load_thres state = 0 \<or> bcpu \<le> enter_cpu_load_thres state"
    and "enter_gfx_load_thres state = 0 \<or> bgfx = - 1 \<or> bgfx \<le> enter_gfx_load_thres state"
    and "entry_system_load_thres state \<noteq> 0"
    and "bsys > entry_system_load_thres state"
  shows "state_match current i state bsys bcpu bgfx wlt_index \<noteq> 0 \<longleftrightarrow>
           bsys \<le> entry_load_sys state + exit_system_load_hyst state
           \<and> bsys \<le> entry_system_load_thres state + exit_system_load_hyst state"
proof -
  have c1: "(valid state = 0) = False"
    using assms(1) by simp
  have c2: "(wlt_type state \<noteq> - 1 \<and> wlt_type state \<noteq> wlt_index) = False"
    using assms(2) by blast
  have c3: "(wlt_type state \<noteq> - 1 \<and> enter_gfx_load_thres state = 0) = False"
    using assms(2) by blast
  have c4: "(enter_cpu_load_thres state = 0 \<and> entry_system_load_thres state = 0
              \<and> enter_gfx_load_thres state = 0) = False"
    using assms(7) by blast
  have c5: "(enter_cpu_load_thres state \<noteq> 0 \<and> bcpu > enter_cpu_load_thres state) = False"
    using assms(5) by auto
  have c6: "(enter_gfx_load_thres state \<noteq> 0 \<and> bgfx \<noteq> - 1
              \<and> bgfx > enter_gfx_load_thres state) = False"
    using assms(6) by auto
  have c7: "(entry_system_load_thres state \<noteq> 0 \<and> bsys > entry_system_load_thres state) = True"
    using assms(7,8) by simp
  have c8: "(exit_system_load_hyst state = 0 \<or> current \<noteq> Some i) = False"
    using assms(3,4) by simp
  show ?thesis
    unfolding state_match_def c1 c2 c3 c4 c5 c6 c7 c8 by auto
qed

lemma sticky_state_fields:
  "valid sticky_state = 1" "wlt_type sticky_state = - 1"
  "exit_system_load_hyst sticky_state = 1000" "enter_cpu_load_thres sticky_state = 0"
  "enter_gfx_load_thres sticky_state = 0" "entry_system_load_thres sticky_state = 5000"
  "entry_load_sys sticky_state = 4500"
  by (simp_all add: sticky_state_def plain_state_def)

theorem state_match_sticky_witness:
  "state_match (Some 0) 0 sticky_state 5500 0 (- 1) (- 1) \<noteq> 0
   \<and> state_match (Some 0) 0 sticky_state 5800 0 (- 1) (- 1) = 0
   \<and> state_match (Some 0) 0 sticky_state 6100 0 (- 1) (- 1) = 0"
  using state_match_sticky [of sticky_state "- 1" "Some 0" 0 0 "- 1" 5500]
    state_match_sticky [of sticky_state "- 1" "Some 0" 0 0 "- 1" 5800]
    state_match_sticky [of sticky_state "- 1" "Some 0" 0 0 "- 1" 6100]
  by (simp add: sticky_state_fields)

text \<open>
  Claim C2 as stated fails at its own example: with thresholds 5000, 1000 and 4500 the
  active state does not match at \<open>bsys = 5800\<close>, which exceeds \<open>4500 + 1000\<close>.
\<close>

theorem sticky_state_rejects_5800:
  "state_match (Some 0) 0 sticky_state 5800 0 (- 1) (- 1) = 0"
  by (simp add: state_match_def sticky_state_fields)

lemma config_state_loop_first:
  assumes "\<forall>j \<in> set pre.
             state_match (current_state m) j (config_states m ! j) bsys bcpu bgfx w = 0"
    and "state_match (current_state m) i (config_states m ! i) bsys bcpu bgfx w \<noteq> 0"
  shows "config_state_loop ign (pre @ i # post) bsys bcpu bgfx w m = enter_state ign i bsys bcpu m"
  using assms by (induction pre) simp_all

lemma upt_split:
  assumes "i < n"
  shows "[0 ..< n] = [0 ..< i] @ i # [Suc i ..< n]"
proof -
  have "[0 ..< n] = [0 ..< i] @ [i ..< n]"
    using upt_add_eq_append [of 0 i "n - i"] assms by simp
  also have "[i ..< n] = i # [Suc i ..< n]"
    using assms by (simp add: upt_conv_Cons)
  finally show ?thesis .
qed

lemma enter_state_current:
  "current_state (snd (enter_state ign i bsys bcpu m)) = Some i"
  by (simp add: enter_state_def Let_def)

lemma enter_state_others:
  "k \<noteq> i \<Longrightarrow> config_states (snd (enter_state ign i bsys bcpu m)) ! k = config_states m ! k"
  by (simp add: enter_state_def Let_def)

lemma enter_state_fst:
  "fst (enter_state ign i bsys bcpu m) =
     (let state = config_states m ! i
      in if current_state m = Some i then
           let iv1 = (if poll_interval_increment state > 0
                      then interval m + poll_interval_increment state else interval m);
               iv2 = (if poll_interval_increment state = - 1
                      then ((max_poll_interval state * (10000 - bcpu) sdiv 10000) sdiv 100) * 100
                      else iv1);
               iv3 = (if min_poll_interval state \<noteq> 0 \<and> iv2 < min_poll_interval state
                      then min_poll_interval state else iv2)
           in if max_poll_interval state \<noteq> 0 \<and> iv3 > max_poll_interval state
              then max_poll_interval state else iv3
         else if min_poll_interval state \<noteq> 0
              then min_poll_interval state else DEFAULT_POLL_RATE_MS)"
  by (simp add: enter_state_def Let_def)

lemma enter_state_interval_cong:
  assumes "config_states m' ! i = config_states m ! i"
    and "current_state m' = current_state m" and "interval m' = interval m"
  shows "fst (enter_state ign i bsys bcpu m') = fst (enter_state ign i bsys bcpu m)"
  by (simp only: enter_state_fst assms)

lemma first_match_is_entered:
  assumes "i < length (config_states m)"
    and "state_match (current_state m) i (config_states m ! i) bsys bcpu bgfx w \<noteq> 0"
    and "\<forall>j < i. state_match (current_state m) j (config_states m ! j) bsys bcpu bgfx w = 0"
  shows "process_next_config_state ign bsys bcpu bgfx w m = enter_state ign i bsys bcpu m"
  unfolding process_next_config_state_def upt_split [OF assms(1)]
  by (rule config_state_loop_first) (use assms in auto)

text \<open>
  Claim C5. If the state at index \<open>i\<close> matches and no state before it does,
  \<^verbatim>\<open>process_next_config_state\<close> does what \<^verbatim>\<open>enter_state\<close> does for that state: it
  becomes the active state and every other entry of the list is left as it was. The
  states after \<open>i\<close> are not looked at: replacing them by any others changes neither the
  state selected nor the interval returned.
\<close>

theorem first_match_selected:
  assumes "i < length (config_states m)"
    and "state_match (current_state m) i (config_states m ! i) bsys bcpu bgfx w \<noteq> 0"
    and "\<forall>j < i. state_match (current_state m) j (config_states m ! j) bsys bcpu bgfx w = 0"
  shows "process_next_config_state ign bsys bcpu bgfx w m = enter_state ign i bsys bcpu m
      \<and> current_state (snd (process_next_config_state ign bsys bcpu bgfx w m)) = Some i
      \<and> (\<forall>k. k \<noteq> i \<longrightarrow>
            config_states (snd (process_next_config_state ign bsys bcpu bgfx w m)) ! k
              = config_states m ! k)
      \<and> (\<forall>later. 
            current_state (snd (process_next_config_state ign bsys bcpu bgfx w
                (m\<lparr> config_states := take (Suc i) (config_states m) @ later \<rparr>))) = Some i
            \<and> fst (process_next_config_state ign bsys bcpu bgfx w
                (m\<lparr> config_states := take (Suc i) (config_states m) @ later \<rparr>))
                = fst (process_next_config_state ign bsys bcpu bgfx w m))"
proof -
  have here: "process_next_config_state ign bsys bcpu bgfx w m = enter_state ign i bsys bcpu m"
    by (rule first_match_is_entered [OF assms])
  have there: "process_next_config_state ign bsys bcpu bgfx w m' = enter_state ign i bsys bcpu m'
      \<and> fst (enter_state ign i bsys bcpu m') = fst (enter_state ign i bsys bcpu m)"
    if m': "m' = m\<lparr> config_states := take (Suc i) (config_states m) @ later \<rparr>"
    for m' later
  proof -
    have same: "config_states m' ! j = config_states m ! j" if "j \<le> i" for j
      using that assms(1) by (simp add: m' nth_append)
    have len: "i < length (config_states m')"
      using assms(1) by (simp add: m')
    have cur: "current_state m' = current_state m" and iv: "interval m' = interval m"
      by (simp_all add: m')
    have "process_next_config_state ign bsys bcpu bgfx w m' = enter_state ign i bsys bcpu m'"
      by (rule first_match_is_entered [OF len]) (use assms same cur in simp_all)
    moreover have "fst (enter_state ign i bsys bcpu m') = fst (enter_state ign i bsys bcpu m)"
      by (rule enter_state_interval_cong) (use same cur iv in simp_all)
    ultimately show ?thesis by simp
  qed
  show ?thesis
    using here there by (simp add: enter_state_current enter_state_others)
qed

lemma three_states_match:
  "state_match None 0 (three_states ! 0) 3000 5000 (- 1) (- 1) = 0"
  "state_match None 1 (three_states ! 1) 3000 5000 (- 1) (- 1) = 1"
  "state_match None 2 (three_states ! 2) 3000 5000 (- 1) (- 1) = 0"
  by (simp_all add: three_states_def plain_state_def state_match_def)

theorem first_match_selected_witness:
  "current_state (snd (process_next_config_state (- 2) 3000 5000 (- 1) (- 1)
      (matcher_init three_states))) = Some 1
   \<and> state_match None 0 (three_states ! 0) 3000 5000 (- 1) (- 1) = 0
   \<and> state_match None 1 (three_states ! 1) 3000 5000 (- 1) (- 1) \<noteq> 0
   \<and> state_match None 2 (three_states ! 2) 3000 5000 (- 1) (- 1) = 0"
proof -
  have m: "config_states (matcher_init three_states) = three_states"
      "current_state (matcher_init three_states) = None"
    by (simp_all add: matcher_init_def)
  have l: "1 < length (config_states (matcher_init three_states))"
    by (simp add: matcher_init_def three_states_def)
  from first_match_selected [OF l, of 3000 5000 "- 1" "- 1" "- 2"] three_states_match
  show ?thesis by (simp add: m enter_state_current)
qed

subsection \<open>The polling interval of the active state\<close>

lemma enter_state_same:
  assumes "current_state m = Some i"
  shows "fst (enter_state ign i bsys bcpu m) =
     (let state = config_states m ! i;
          iv1 = (if poll_interval_increment state > 0
                 then interval m + poll_interval_increment state else interval m);
          iv2 = (if poll_interval_increment state = - 1
                 then ((max_poll_interval state * (10000 - bcpu) sdiv 10000) sdiv 100) * 100
                 else iv1);
          iv3 = (if min_poll_interval state \<noteq> 0 \<and> iv2 < min_poll_interval state
                 then min_poll_interval state else iv2)
      in if max_poll_interval state \<noteq> 0 \<and> iv3 > max_poll_interval state
         then max_poll_interval state else iv3)"
  unfolding enter_state_fst by (simp add: assms Let_def)

text \<open>
  Claim C6, as the code has it. When \<^verbatim>\<open>enter_state\<close> is called for the active state
  and \<open>0 < min_poll_interval \<le> max_poll_interval\<close>, the interval returned lies between
  the two. With the adaptive sentinel -1 it is a multiple of 100 unless it was clamped to
  \<^verbatim>\<open>min_poll_interval\<close> or \<^verbatim>\<open>max_poll_interval\<close>, so it is one whenever both bounds
  are. With a positive increment it is the stored interval plus the increment, unrounded,
  whenever that sum lies within the bounds.
\<close>

theorem same_state_interval:
  assumes active: "current_state m = Some i"
    and state: "state = config_states m ! i"
    and r: "r = fst (enter_state ign i bsys bcpu m)"
  shows "(0 < min_poll_interval state \<and> min_poll_interval state \<le> max_poll_interval state
            \<longrightarrow> min_poll_interval state \<le> r \<and> r \<le> max_poll_interval state)
       \<and> (poll_interval_increment state = - 1
            \<longrightarrow> 100 dvd r \<or> r = min_poll_interval state \<or> r = max_poll_interval state)
       \<and> (poll_interval_increment state = - 1 \<and> 100 dvd min_poll_interval state
            \<and> 100 dvd max_poll_interval state \<longrightarrow> 100 dvd r)
       \<and> (0 < poll_interval_increment state
            \<and> min_poll_interval state \<le> interval m + poll_interval_increment state
            \<and> interval m + poll_interval_increment state \<le> max_poll_interval state
            \<longrightarrow> r = interval m + poll_interval_increment state)"
proof -
  define a where "a = ((max_poll_interval state * (10000 - bcpu) sdiv 10000) sdiv 100) * 100"
  have a: "100 dvd a" by (simp add: a_def)
  have r': "r = (let iv1 = (if poll_interval_increment state > 0
                            then interval m + poll_interval_increment state else interval m);
                     iv2 = (if poll_interval_increment state = - 1 then a else iv1);
                     iv3 = (if min_poll_interval state \<noteq> 0 \<and> iv2 < min_poll_interval state
                            then min_poll_interval state else iv2)
                 in if max_poll_interval state \<noteq> 0 \<and> iv3 > max_poll_interval state
                    then max_poll_interval state else iv3)"
    unfolding r enter_state_same [OF active] a_def state Let_def by (rule refl)
  have bounds: "min_poll_interval state \<le> r \<and> r \<le> max_poll_interval state"
    if "0 < min_poll_interval state" "min_poll_interval state \<le> max_poll_interval state"
    using that unfolding r' by (simp add: Let_def)
  have adaptive: "100 dvd r \<or> r = min_poll_interval state \<or> r = max_poll_interval state"
    if "poll_interval_increment state = - 1"
    using that a unfolding r' by (simp add: Let_def)
  have fixed: "r = interval m + poll_interval_increment state"
    if "0 < poll_interval_increment state"
      "min_poll_interval state \<le> interval m + poll_interval_increment state"
      "interval m + poll_interval_increment state \<le> max_poll_interval state"
    using that unfolding r' by (simp add: Let_def)
  from bounds adaptive fixed show ?thesis by blast
qed

lemma stepping_state_fields:
  "min_poll_interval stepping_state = 100" "max_poll_interval stepping_state = 2000"
  "poll_interval_increment stepping_state = 50"
  by (simp_all add: stepping_state_def plain_state_def)

lemma adaptive_state_fields:
  "min_poll_interval adaptive_state = 250" "max_poll_interval adaptive_state = 1000"
  "poll_interval_increment adaptive_state = - 1"
  by (simp_all add: adaptive_state_def plain_state_def)

lemma matcher_in_first_fields:
  "current_state (matcher_in_first states) = Some 0"
  "config_states (matcher_in_first states) = states"
  "interval (matcher_in_first states) = 1000"
  by (simp_all add: matcher_in_first_def matcher_init_def DEFAULT_POLL_RATE_MS_def)

theorem same_state_interval_witness:
  "fst (enter_state (- 2) 0 0 0 (matcher_in_first [stepping_state])) = 1050
   \<and> 250 \<le> fst (enter_state (- 2) 0 0 9000 (matcher_in_first [adaptive_state]))
   \<and> fst (enter_state (- 2) 0 0 9000 (matcher_in_first [adaptive_state])) \<le> 1000
   \<and> 100 dvd fst (enter_state (- 2) 0 0 2000
        (matcher_in_first [adaptive_state\<lparr> min_poll_interval := 200 \<rparr>]))"
  using same_state_interval [of "matcher_in_first [stepping_state]" 0 stepping_state _ "- 2" 0 0,
      OF _ _ refl]
    same_state_interval [of "matcher_in_first [adaptive_state]" 0 adaptive_state _ "- 2" 0 9000,
      OF _ _ refl]
    same_state_interval [of "matcher_in_first [adaptive_state\<lparr> min_poll_interval := 200 \<rparr>]" 0
      "adaptive_state\<lparr> min_poll_interval := 200 \<rparr>" _ "- 2" 0 2000, OF _ _ refl]
  by (simp add: matcher_in_first_fields stepping_state_fields adaptive_state_fields)

text \<open>
  Claim C6 as stated fails: staying in a state that steps by 50 ms turns the stored
  1000 ms into 1050 ms, and the adaptive formula's 100 ms at 90% CPU load is raised to a
  \<^verbatim>\<open>min_poll_interval\<close> of 250 ms; neither is a multiple of 100.
\<close>

theorem interval_not_multiple_of_100:
  "\<not> 100 dvd fst (enter_state (- 2) 0 0 0 (matcher_in_first [stepping_state]))
   \<and> \<not> 100 dvd fst (enter_state (- 2) 0 0 9000 (matcher_in_first [adaptive_state]))"
  by (simp add: enter_state_same matcher_in_first_fields stepping_state_fields
      adaptive_state_fields Let_def)

end
